theory Spec2Isabelle
  imports Complex_Main "HOL-Library.Word"
begin

unbundle bit_operations_syntax

section \<open>Values of the host language\<close>

text \<open>
  A JavaScript string is the list of its UTF-16 code units, each a natural number
  below 65536; \<open>length\<close> is then the \<open>.length\<close> of the source.  A \<open>Buffer\<close> is a list
  of bytes.  \<open>js\<close> turns an ASCII literal into a JavaScript string.
\<close>

type_synonym byte = "8 word"
type_synonym buffer = "byte list"
type_synonym jsstring = "nat list"

definition js :: "string \<Rightarrow> jsstring" where
  "js s = map of_char s"

text \<open>
  The characters \<open>String.prototype.trim\<close> removes and the regular expression class
  \<open>\s\<close> matches: WhiteSpace and LineTerminator of ECMAScript.
\<close>

definition isWhiteSpace :: "nat \<Rightarrow> bool" where
  "isWhiteSpace c \<longleftrightarrow>
     c = 9 \<or> c = 10 \<or> c = 11 \<or> c = 12 \<or> c = 13 \<or> c = 32 \<or> c = 160 \<or> c = 5760 \<or>
     (8192 \<le> c \<and> c \<le> 8202) \<or> c = 8232 \<or> c = 8233 \<or> c = 8239 \<or> c = 8287 \<or>
     c = 12288 \<or> c = 65279"

text \<open>The characters the regular expression \<open>.\<close> does not match.\<close>

definition isLineTerminator :: "nat \<Rightarrow> bool" where
  "isLineTerminator c \<longleftrightarrow> c = 10 \<or> c = 13 \<or> c = 8232 \<or> c = 8233"

definition trim :: "jsstring \<Rightarrow> jsstring" where
  "trim s = rev (dropWhile isWhiteSpace (rev (dropWhile isWhiteSpace s)))"

text \<open>\<open>s.split(sep)\<close> for a separator of one character: never the empty array.\<close>

fun split_on :: "nat \<Rightarrow> jsstring \<Rightarrow> jsstring list" where
  "split_on sep [] = [[]]"
| "split_on sep (c # cs) =
     (if c = sep then [] # split_on sep cs
      else (case split_on sep cs of
              [] \<Rightarrow> [[c]]
            | x # xs \<Rightarrow> (c # x) # xs))"

text \<open>\<open>pieces.join(sep)\<close> for a separator of one character.\<close>

fun join_with :: "nat \<Rightarrow> jsstring list \<Rightarrow> jsstring" where
  "join_with sep [] = []"
| "join_with sep [x] = x"
| "join_with sep (x # y # ys) = x @ sep # join_with sep (y # ys)"

definition startsWith :: "jsstring \<Rightarrow> jsstring \<Rightarrow> bool" where
  "startsWith s p \<longleftrightarrow> take (length p) s = p"

definition endsWith :: "jsstring \<Rightarrow> jsstring \<Rightarrow> bool" where
  "endsWith s p \<longleftrightarrow> length p \<le> length s \<and> drop (length s - length p) s = p"

section \<open>Errors\<close>

text \<open>
  Every \<open>throw\<close> of the sources is a constructor; the message of the thrown \<open>Error\<close> is
  given beside it.  \<open>CryptoError\<close> and \<open>FsError\<close> are the errors the \<open>crypto\<close> and \<open>fs\<close>
  modules of the platform throw, \<open>JsonError\<close> those of \<open>JSON.parse\<close> and of encoding a value
  that \<open>JSON.stringify\<close> cannot turn into a string, \<open>ValidationFailed\<close> carries the (field, message) pairs
  the schema reported.
\<close>

datatype error =
    KeyNotSet                      \<comment> \<open>Key is not set.\<close>
  | InvalidKeyLength               \<comment> \<open>Key must be 64 bytes long.\<close>
  | InvalidPassword                \<comment> \<open>Password must be a non-empty string.\<close>
  | FailedEnv                      \<comment> \<open>Failed to decrypt and load environment variables.\<close>
  | FailedEncryptFile              \<comment> \<open>Failed to encrypt file.\<close>
  | FailedDecryptFile              \<comment> \<open>Failed to decrypt file.\<close>
  | FailedLoadBuffer               \<comment> \<open>Failed to load buffer from file.\<close>
  | FailedLoadJSON                 \<comment> \<open>Failed to load JSON from file.\<close>
  | FailedSaveBuffer               \<comment> \<open>Failed to save buffer to file.\<close>
  | FailedSaveJSON                 \<comment> \<open>Failed to save JSON to file.\<close>
  | JsonError string
  | TypeError string
  | CryptoError string
  | FsError jsstring
  | KeyUnavailable                 \<comment> \<open>Encryption key ... is undefined or invalid\<close>
  | FileNotFound jsstring          \<comment> \<open>Configuration file not found: (resolved path)\<close>
  | DecryptionFailed jsstring      \<comment> \<open>Failed to decrypt file. (filename)\<close>
  | ValidationFailed jsstring "(jsstring \<times> jsstring) list"
  | NoFilesMatched jsstring        \<comment> \<open>No environment files matched pattern: (filemask)\<close>

section \<open>The cipher object: key material\<close>

text \<open>
  \<open>class TopSecret\<close> has the two fields \<open>_key\<close> and \<open>_password\<close>, both \<open>null\<close> after the
  constructor.
\<close>

record topsecret =
  ts_key :: "buffer option"
  ts_password :: "jsstring option"

definition constructor :: topsecret where
  "constructor = \<lparr>ts_key = None, ts_password = None\<rparr>"

text \<open>
  \<open>Buffer.from(s, "hex")\<close>: pairs of hex digits, cut at the first pair that is not one.
  Of each code unit the decoder reads the low byte.
\<close>

definition hexval :: "nat \<Rightarrow> nat option" where
  "hexval c =
     (if 48 \<le> c \<and> c \<le> 57 then Some (c - 48)
      else if 97 \<le> c \<and> c \<le> 102 then Some (c - 87)
      else if 65 \<le> c \<and> c \<le> 70 then Some (c - 55)
      else None)"

fun hex_decode :: "jsstring \<Rightarrow> buffer" where
  "hex_decode (a # b # cs) =
     (case hexval (a mod 256) of
        None \<Rightarrow> []
      | Some x \<Rightarrow> (case hexval (b mod 256) of
                    None \<Rightarrow> []
                  | Some y \<Rightarrow> of_nat (16 * x + y) # hex_decode cs))"
| "hex_decode cs = []"

text \<open>\<open>buf.toString("hex")\<close>.\<close>

definition hexdigit :: "nat \<Rightarrow> nat" where
  "hexdigit d = (if d < 10 then 48 + d else 87 + d)"

definition hex_encode :: "buffer \<Rightarrow> jsstring" where
  "hex_encode bs = concat (map (\<lambda>b. [hexdigit (unat b div 16), hexdigit (unat b mod 16)]) bs)"

text \<open>
  \<open>generateKey()\<close>: \<open>r\<close> is what \<open>crypto.randomBytes(32)\<close> returned.  The result is the hex
  string returned and the object after the call.
\<close>

definition generateKey :: "buffer \<Rightarrow> topsecret \<Rightarrow> jsstring \<times> topsecret" where
  "generateKey r s = (hex_encode r, s\<lparr>ts_key := Some r\<rparr>)"

text \<open>\<open>set key(value)\<close> for a string \<open>value\<close>; the empty string is falsy.\<close>

definition set_key :: "jsstring \<Rightarrow> topsecret \<Rightarrow> error + topsecret" where
  "set_key v s =
     (if v \<noteq> [] \<and> length v = 64 then Inr (s\<lparr>ts_key := Some (hex_decode v)\<rparr>)
      else Inl InvalidKeyLength)"

text \<open>
  \<open>set password(value)\<close> for a string \<open>value\<close>; \<open>sha256\<close> is
  \<open>crypto.createHash("sha256").update(value).digest()\<close>.
\<close>

definition set_password :: "(jsstring \<Rightarrow> buffer) \<Rightarrow> jsstring \<Rightarrow> topsecret \<Rightarrow> error + topsecret" where
  "set_password sha256 v s =
     (if length v = 0 then Inl InvalidPassword
      else Inr (s\<lparr>ts_password := Some v, ts_key := Some (sha256 v)\<rparr>))"

section \<open>Key material: what the setters keep and replace\<close>

lemma hex_decode_length_le: "2 * length (hex_decode v) \<le> length v"
  by (induction v rule: hex_decode.induct) (auto split: option.splits)

lemma hexval_low_byte: "hexval c \<noteq> None \<Longrightarrow> c mod 256 = c"
  by (auto simp: hexval_def split: if_splits)

lemma hex_decode_all_hex:
  "\<forall>c \<in> set v. hexval c \<noteq> None \<Longrightarrow> length (hex_decode v) = length v div 2"
  by (induction v rule: hex_decode.induct) (auto simp: hexval_low_byte split: option.splits)

lemma set_key_length_check:
  "length v \<noteq> 64 \<Longrightarrow> set_key v s = Inl InvalidKeyLength"
  by (simp add: set_key_def)

lemma set_key_hex_ok:
  assumes "length v = 64" and "\<forall>c \<in> set v. hexval c \<noteq> None"
  shows "set_key v s = Inr (s\<lparr>ts_key := Some (hex_decode v)\<rparr>) \<and> length (hex_decode v) = 32"
proof -
  from assms have "v \<noteq> []" by auto
  moreover from assms have "length (hex_decode v) = 32"
    by (simp add: hex_decode_all_hex)
  ultimately show ?thesis using assms(1) by (simp add: set_key_def)
qed

lemma hex_decode_zeros: "hex_decode (replicate (2 * n) 48 @ t) = replicate n 0 @ hex_decode t"
  by (induction n) (simp_all add: hexval_def)

lemma hex_decode_64_zeros: "hex_decode (replicate 64 48) = replicate 32 0"
  using hex_decode_zeros [of 32 "[]"] by simp

lemma hex_decode_62_zeros_zz:
  "hex_decode (replicate 62 48 @ [122, 122]) = replicate 31 0"
  using hex_decode_zeros [of 31 "[122, 122]"] by (simp add: hexval_def)

lemma hex_decode_64_z: "hex_decode (replicate 64 122) = []"
proof -
  have "replicate 64 122 = (122 :: nat) # 122 # replicate 62 122"
    by (simp add: replicate_Suc [symmetric] del: replicate_Suc)
  then show ?thesis by (simp add: hexval_def)
qed

text \<open>
  C2 (as amended).  The object has one slot for key material, and each of the three
  operations replaces it: \<open>generateKey\<close> by the random bytes, \<open>set key\<close> by the decoded
  string, \<open>set password\<close> by the hash of the password.  Only \<open>set password\<close> writes the
  password field; \<open>generateKey\<close> and \<open>set key\<close> leave a password set earlier where it is.
\<close>

theorem key_material_replaced_password_kept:
  "ts_key (snd (generateKey r s)) = Some r \<and>
   ts_password (snd (generateKey r s)) = ts_password s \<and>
   (set_key v s = Inr s' \<longrightarrow> ts_key s' = Some (hex_decode v) \<and> ts_password s' = ts_password s) \<and>
   (set_password sha256 p s = Inr s'' \<longrightarrow> ts_key s'' = Some (sha256 p) \<and> ts_password s'' = Some p)"
  by (auto simp: generateKey_def set_key_def set_password_def split: if_splits)

theorem key_material_replaced_password_kept_witness:
  "set_key (replicate 64 48) constructor = Inr \<lparr>ts_key = Some (replicate 32 0), ts_password = None\<rparr> \<and>
   set_password (\<lambda>p. replicate 32 1) [112] constructor
     = Inr \<lparr>ts_key = Some (replicate 32 1), ts_password = Some [112]\<rparr> \<and>
   ts_key \<lparr>ts_key = Some (replicate 32 0), ts_password = None\<rparr> = Some (hex_decode (replicate 64 48)) \<and>
   ts_password \<lparr>ts_key = Some (replicate 32 1), ts_password = Some [112]\<rparr> = Some [112]"
proof -
  have a: "set_key (replicate 64 48) constructor
             = Inr \<lparr>ts_key = Some (replicate 32 0), ts_password = None\<rparr>"
    by (simp add: set_key_def constructor_def hex_decode_64_zeros)
  have b: "set_password (\<lambda>p. replicate 32 1) [112] constructor
             = Inr \<lparr>ts_key = Some (replicate 32 1), ts_password = Some [112]\<rparr>"
    by (simp add: set_password_def constructor_def)
  from key_material_replaced_password_kept
         [of "replicate 32 0" constructor "replicate 64 48"
             "\<lparr>ts_key = Some (replicate 32 0), ts_password = None\<rparr>"
             "\<lambda>p. replicate 32 1" "[112]"
             "\<lparr>ts_key = Some (replicate 32 1), ts_password = Some [112]\<rparr>"]
  show ?thesis using a b by (simp add: hex_decode_64_zeros)
qed

text \<open>
  C2 (as stated) fails: a password set first is still on the object after \<open>generateKey\<close>
  and after \<open>set key\<close>, beside key material that does not come from it.
\<close>

theorem password_survives_counterexample:
  "set_password (\<lambda>p. replicate 32 1) (js ''pw'') constructor
     = Inr \<lparr>ts_key = Some (replicate 32 1), ts_password = Some (js ''pw'')\<rparr> \<and>
   snd (generateKey (replicate 32 7) \<lparr>ts_key = Some (replicate 32 1), ts_password = Some (js ''pw'')\<rparr>)
     = \<lparr>ts_key = Some (replicate 32 7), ts_password = Some (js ''pw'')\<rparr> \<and>
   set_key (replicate 64 48) \<lparr>ts_key = Some (replicate 32 1), ts_password = Some (js ''pw'')\<rparr>
     = Inr \<lparr>ts_key = Some (replicate 32 0), ts_password = Some (js ''pw'')\<rparr>"
  by (simp add: set_password_def generateKey_def set_key_def constructor_def js_def
        hex_decode_64_zeros)

text \<open>
  C6.  The setter tests the length of the string, not of what it decodes to: a string of
  64 characters that are not hex digits is accepted and installs key material of no
  bytes at all, and 62 hex digits followed by \<open>zz\<close> install 31 bytes.
\<close>

theorem set_key_accepts_non_hex:
  "set_key (replicate 64 122) constructor = Inr \<lparr>ts_key = Some [], ts_password = None\<rparr> \<and>
   (\<exists>k. set_key (replicate 62 48 @ [122, 122]) constructor
           = Inr \<lparr>ts_key = Some k, ts_password = None\<rparr> \<and> length k = 31)"
  by (simp add: set_key_def constructor_def hex_decode_64_z hex_decode_62_zeros_zz)

section \<open>Text in buffers\<close>

text \<open>
  \<open>buf.toString("utf-8")\<close> is the UTF-8 decoder of the platform: a byte or a cut-short
  sequence that is not well-formed UTF-8 becomes U+FFFD, and the byte that ended a
  cut-short sequence is read again as the start of the next one.  The state of
  \<open>utf8_run\<close> is the number of continuation bytes still needed, the code point built so
  far and the bounds on the next continuation byte.
\<close>

type_synonym utf8_state = "nat \<times> nat \<times> nat \<times> nat"

definition utf8_init :: utf8_state where
  "utf8_init = (0, 0, 0x80, 0xBF)"

definition utf8_start :: "nat \<Rightarrow> nat list \<times> utf8_state" where
  "utf8_start b =
     (if b \<le> 0x7F then ([b], utf8_init)
      else if 0xC2 \<le> b \<and> b \<le> 0xDF then ([], (1, b mod 32, 0x80, 0xBF))
      else if 0xE0 \<le> b \<and> b \<le> 0xEF then
        ([], (2, b mod 16, if b = 0xE0 then 0xA0 else 0x80, if b = 0xED then 0x9F else 0xBF))
      else if 0xF0 \<le> b \<and> b \<le> 0xF4 then
        ([], (3, b mod 8, if b = 0xF0 then 0x90 else 0x80, if b = 0xF4 then 0x8F else 0xBF))
      else ([0xFFFD], utf8_init))"

fun utf8_run :: "utf8_state \<Rightarrow> nat list \<Rightarrow> nat list" where
  "utf8_run (n, cp, lo, hi) [] = (if n = 0 then [] else [0xFFFD])"
| "utf8_run (n, cp, lo, hi) (b # bs) =
     (if n = 0 then fst (utf8_start b) @ utf8_run (snd (utf8_start b)) bs
      else if b < lo \<or> hi < b then 0xFFFD # fst (utf8_start b) @ utf8_run (snd (utf8_start b)) bs
      else if n = 1 then (cp * 64 + b mod 64) # utf8_run utf8_init bs
      else utf8_run (n - 1, cp * 64 + b mod 64, 0x80, 0xBF) bs)"

text \<open>A code point as UTF-16 code units.\<close>

definition utf16_units :: "nat \<Rightarrow> nat list" where
  "utf16_units c =
     (if c < 0x10000 then [c]
      else [0xD800 + (c - 0x10000) div 1024, 0xDC00 + (c - 0x10000) mod 1024])"

definition string_of_text :: "nat list \<Rightarrow> jsstring" where
  "string_of_text cps = concat (map utf16_units cps)"

definition toString_utf8 :: "buffer \<Rightarrow> jsstring" where
  "toString_utf8 buf = string_of_text (utf8_run utf8_init (map unat buf))"

text \<open>
  \<open>Buffer.from(s, "utf8")\<close>, also what \<open>fs.writeFileSync\<close> makes of a string: the code
  points of the string (a surrogate without its partner is U+FFFD), each as UTF-8.
\<close>

definition isHigh :: "nat \<Rightarrow> bool" where
  "isHigh u \<longleftrightarrow> 0xD800 \<le> u \<and> u \<le> 0xDBFF"

definition isLow :: "nat \<Rightarrow> bool" where
  "isLow u \<longleftrightarrow> 0xDC00 \<le> u \<and> u \<le> 0xDFFF"

fun text_of_string :: "jsstring \<Rightarrow> nat list" where
  "text_of_string [] = []"
| "text_of_string [a] = [if isHigh a \<or> isLow a then 0xFFFD else a]"
| "text_of_string (a # b # cs) =
     (if isHigh a \<and> isLow b then
        (0x10000 + (a - 0xD800) * 1024 + (b - 0xDC00)) # text_of_string cs
      else (if isHigh a \<or> isLow a then 0xFFFD else a) # text_of_string (b # cs))"

definition utf8_bytes :: "nat \<Rightarrow> nat list" where
  "utf8_bytes c =
     (if c < 0x80 then [c]
      else if c < 0x800 then [0xC0 + c div 64, 0x80 + c mod 64]
      else if c < 0x10000 then [0xE0 + c div 4096, 0x80 + c div 64 mod 64, 0x80 + c mod 64]
      else [0xF0 + c div 262144, 0x80 + c div 4096 mod 64, 0x80 + c div 64 mod 64,
            0x80 + c mod 64])"

definition utf8_of_text :: "nat list \<Rightarrow> buffer" where
  "utf8_of_text cps = map of_nat (concat (map utf8_bytes cps))"

definition Buffer_from_utf8 :: "jsstring \<Rightarrow> buffer" where
  "Buffer_from_utf8 s = utf8_of_text (text_of_string s)"

text \<open>A Unicode scalar value: a code point that is not a surrogate.\<close>

definition isScalar :: "nat \<Rightarrow> bool" where
  "isScalar c \<longleftrightarrow> c < 0xD800 \<or> (0xE000 \<le> c \<and> c \<le> 0x10FFFF)"

section \<open>The cipher: aes-256-cbc\<close>

text \<open>
  \<open>crypto.createCipheriv("aes-256-cbc", key, iv)\<close> is the block cipher of the platform
  in CBC mode with PKCS#7 padding.  The block cipher itself is a parameter: \<open>E k\<close>
  encrypts one block of 16 bytes under the key \<open>k\<close>, \<open>D k\<close> decrypts one.  Both
  constructors throw on a key that is not 32 bytes and on an IV that is not 16.
\<close>

type_synonym blockfn = "buffer \<Rightarrow> buffer \<Rightarrow> buffer"

definition xor_block :: "buffer \<Rightarrow> buffer \<Rightarrow> buffer" where
  "xor_block a b = map2 (XOR) a b"

definition pkcs7_pad :: "buffer \<Rightarrow> buffer" where
  "pkcs7_pad p = p @ replicate (16 - length p mod 16) (of_nat (16 - length p mod 16))"

definition pkcs7_unpad :: "buffer \<Rightarrow> error + buffer" where
  "pkcs7_unpad p =
     (if p = [] then Inl (CryptoError ''wrong final block length'')
      else let n = unat (last p) in
        if n = 0 \<or> 16 < n \<or> length p < n \<or> drop (length p - n) p \<noteq> replicate n (last p)
        then Inl (CryptoError ''bad decrypt'')
        else Inr (take (length p - n) p))"

fun blocks16 :: "buffer \<Rightarrow> buffer list" where
  "blocks16 xs = (if xs = [] then [] else take 16 xs # blocks16 (drop 16 xs))"

declare blocks16.simps [simp del]

fun cbc_enc :: "(buffer \<Rightarrow> buffer) \<Rightarrow> buffer \<Rightarrow> buffer list \<Rightarrow> buffer list" where
  "cbc_enc f prev [] = []"
| "cbc_enc f prev (b # bs) = f (xor_block prev b) # cbc_enc f (f (xor_block prev b)) bs"

fun cbc_dec :: "(buffer \<Rightarrow> buffer) \<Rightarrow> buffer \<Rightarrow> buffer list \<Rightarrow> buffer list" where
  "cbc_dec g prev [] = []"
| "cbc_dec g prev (c # cs) = xor_block prev (g c) # cbc_dec g c cs"

definition cipher_key_iv :: "buffer \<Rightarrow> buffer \<Rightarrow> error option" where
  "cipher_key_iv k iv =
     (if length k \<noteq> 32 then Some (CryptoError ''Invalid key length'')
      else if length iv \<noteq> 16 then Some (CryptoError ''Invalid initialization vector'')
      else None)"

definition cbc_encrypt :: "blockfn \<Rightarrow> buffer \<Rightarrow> buffer \<Rightarrow> buffer \<Rightarrow> error + buffer" where
  "cbc_encrypt E k iv p =
     (case cipher_key_iv k iv of
        Some e \<Rightarrow> Inl e
      | None \<Rightarrow> Inr (concat (cbc_enc (E k) iv (blocks16 (pkcs7_pad p)))))"

definition cbc_decrypt :: "blockfn \<Rightarrow> buffer \<Rightarrow> buffer \<Rightarrow> buffer \<Rightarrow> error + buffer" where
  "cbc_decrypt D k iv c =
     (case cipher_key_iv k iv of
        Some e \<Rightarrow> Inl e
      | None \<Rightarrow>
          if length c mod 16 \<noteq> 0 then Inl (CryptoError ''wrong final block length'')
          else pkcs7_unpad (concat (cbc_dec (D k) iv (blocks16 c))))"

section \<open>The cipher object: buffers\<close>

text \<open>\<open>encryptBuffer(buffer)\<close>; \<open>iv\<close> is what \<open>crypto.randomBytes(16)\<close> returned.\<close>

definition encryptBuffer :: "blockfn \<Rightarrow> buffer \<Rightarrow> buffer \<Rightarrow> topsecret \<Rightarrow> error + buffer" where
  "encryptBuffer E iv buffer s =
     (case ts_key s of
        None \<Rightarrow> Inl KeyNotSet
      | Some k \<Rightarrow>
          (case cbc_encrypt E k iv buffer of
             Inl e \<Rightarrow> Inl e
           | Inr c \<Rightarrow> Inr (iv @ c)))"

text \<open>\<open>decryptBuffer(buffer)\<close>: the result is a string.\<close>

definition decryptBuffer :: "blockfn \<Rightarrow> buffer \<Rightarrow> topsecret \<Rightarrow> error + jsstring" where
  "decryptBuffer D buffer s =
     (case ts_key s of
        None \<Rightarrow> Inl KeyNotSet
      | Some k \<Rightarrow>
          (case cbc_decrypt D k (take 16 buffer) (drop 16 buffer) of
             Inl e \<Rightarrow> Inl e
           | Inr p \<Rightarrow> Inr (toString_utf8 p)))"

section \<open>The cipher object: files and the environment\<close>

text \<open>
  The file system is a map from paths to contents, with the paths that cannot be
  written and the paths that exist but cannot be read (a directory, a file without the
  permission).  \<open>fs.readFileSync\<close> throws on a path that has no file or cannot be read,
  and \<open>fs.writeFileSync\<close> on one that cannot be written.
\<close>

record filesystem =
  files :: "jsstring \<rightharpoonup> buffer"
  readonly :: "jsstring set"
  unreadable :: "jsstring set"

definition existsSync :: "filesystem \<Rightarrow> jsstring \<Rightarrow> bool" where
  "existsSync fs f \<longleftrightarrow> files fs f \<noteq> None \<or> f \<in> unreadable fs"

definition readFileSync :: "filesystem \<Rightarrow> jsstring \<Rightarrow> error + buffer" where
  "readFileSync fs f =
     (if f \<in> unreadable fs then Inl (FsError f)
      else (case files fs f of None \<Rightarrow> Inl (FsError f) | Some b \<Rightarrow> Inr b))"

definition writeFileSync :: "filesystem \<Rightarrow> jsstring \<Rightarrow> buffer \<Rightarrow> error + filesystem" where
  "writeFileSync fs f b =
     (if f \<in> readonly fs then Inl (FsError f) else Inr (fs\<lparr>files := (files fs)(f \<mapsto> b)\<rparr>))"

text \<open>
  \<open>process.env\<close> is a map from names to strings.  It keeps a name and a value as the C
  strings of their UTF-8 form: the assignment \<open>process.env[name] = value\<close> stores the
  value up to its first NUL, under the name up to its first NUL, and stores nothing when
  that name is empty.  What is read back is the UTF-8 decoding of what was stored.
\<close>

type_synonym environment = "jsstring \<rightharpoonup> jsstring"

definition env_text :: "jsstring \<Rightarrow> jsstring" where
  "env_text t = toString_utf8 (Buffer_from_utf8 (takeWhile (\<lambda>c. c \<noteq> 0) t))"

definition process_env_set :: "jsstring \<Rightarrow> jsstring \<Rightarrow> environment \<Rightarrow> environment" where
  "process_env_set name v env =
     (if env_text name = [] then env else env(env_text name \<mapsto> env_text v))"

text \<open>
  The body of the \<open>forEach\<close> in \<open>decryptEnvFromFile\<close>: \<open>const [name, value] =
  line.split("=")\<close> takes the first two pieces, and a missing or empty piece is falsy.
\<close>

definition env_line :: "jsstring \<Rightarrow> environment \<Rightarrow> environment" where
  "env_line line env =
     (if trim line \<noteq> [] then
        (case split_on 61 line of
           name # value # rest \<Rightarrow>
             if name \<noteq> [] \<and> value \<noteq> [] then process_env_set (trim name) (trim value) env
             else env
         | _ \<Rightarrow> env)
      else env)"

definition env_lines :: "jsstring \<Rightarrow> environment \<Rightarrow> environment" where
  "env_lines decryptedText env = fold env_line (split_on 10 decryptedText) env"

text \<open>\<open>decryptEnvFromFile(filename)\<close>: the key is tested before the \<open>try\<close>.\<close>

definition decryptEnvFromFile ::
  "blockfn \<Rightarrow> jsstring \<Rightarrow> topsecret \<Rightarrow> filesystem \<Rightarrow> environment \<Rightarrow> error + environment" where
  "decryptEnvFromFile D filename s fs env =
     (if ts_key s = None then Inl KeyNotSet
      else
        (case readFileSync fs filename of
           Inl e \<Rightarrow> Inl FailedEnv
         | Inr encryptedBuffer \<Rightarrow>
             (case decryptBuffer D encryptedBuffer s of
                Inl e \<Rightarrow> Inl FailedEnv
              | Inr decryptedText \<Rightarrow> Inr (env_lines decryptedText env))))"

text \<open>\<open>encryptFile(srcFilename, dstFilename)\<close>: the whole body is in the \<open>try\<close>.\<close>

definition encryptFile ::
  "blockfn \<Rightarrow> buffer \<Rightarrow> jsstring \<Rightarrow> jsstring \<Rightarrow> topsecret \<Rightarrow> filesystem \<Rightarrow> error + filesystem" where
  "encryptFile E iv srcFilename dstFilename s fs =
     (case readFileSync fs srcFilename of
        Inl e \<Rightarrow> Inl FailedEncryptFile
      | Inr buffer \<Rightarrow>
          (case encryptBuffer E iv buffer s of
             Inl e \<Rightarrow> Inl FailedEncryptFile
           | Inr encryptedBuffer \<Rightarrow>
               (case writeFileSync fs dstFilename encryptedBuffer of
                  Inl e \<Rightarrow> Inl FailedEncryptFile
                | Inr fs' \<Rightarrow> Inr fs')))"

text \<open>
  \<open>decryptFile(srcFilename, dstFilename)\<close>: what is written is the string that
  \<open>decryptBuffer\<close> returned.
\<close>

definition decryptFile ::
  "blockfn \<Rightarrow> jsstring \<Rightarrow> jsstring \<Rightarrow> topsecret \<Rightarrow> filesystem \<Rightarrow> error + filesystem" where
  "decryptFile D srcFilename dstFilename s fs =
     (case readFileSync fs srcFilename of
        Inl e \<Rightarrow> Inl FailedDecryptFile
      | Inr encryptedBuffer \<Rightarrow>
          (case decryptBuffer D encryptedBuffer s of
             Inl e \<Rightarrow> Inl FailedDecryptFile
           | Inr decryptedBuffer \<Rightarrow>
               (case writeFileSync fs dstFilename (Buffer_from_utf8 decryptedBuffer) of
                  Inl e \<Rightarrow> Inl FailedDecryptFile
                | Inr fs' \<Rightarrow> Inr fs')))"

text \<open>
  The class body declares \<open>decryptBufferFromFile\<close> twice.  The second declaration
  replaces the first, so it is the method of the object: its whole body is in a \<open>try\<close>.
  The first one, which no call reaches, tests the key and lets the errors through.
\<close>

definition decryptBufferFromFile ::
  "blockfn \<Rightarrow> jsstring \<Rightarrow> topsecret \<Rightarrow> filesystem \<Rightarrow> error + jsstring" where
  "decryptBufferFromFile D filename s fs =
     (case readFileSync fs filename of
        Inl e \<Rightarrow> Inl FailedLoadBuffer
      | Inr encryptedBuffer \<Rightarrow>
          (case decryptBuffer D encryptedBuffer s of
             Inl e \<Rightarrow> Inl FailedLoadBuffer
           | Inr text \<Rightarrow> Inr text))"

definition decryptBufferFromFile_first ::
  "blockfn \<Rightarrow> jsstring \<Rightarrow> topsecret \<Rightarrow> filesystem \<Rightarrow> error + jsstring" where
  "decryptBufferFromFile_first D filename s fs =
     (if ts_key s = None then Inl KeyNotSet
      else
        (case readFileSync fs filename of
           Inl e \<Rightarrow> Inl e
         | Inr encryptedBuffer \<Rightarrow> decryptBuffer D encryptedBuffer s))"

section \<open>The cipher object: JSON\<close>

text \<open>
  \<open>JSON.stringify\<close>, \<open>JSON.parse\<close> and the base64 coding of buffers
  (\<open>base64_encode\<close>, \<open>base64_decode\<close>) are parameters;
  \<open>'v\<close> is the type of the values they encode.
\<close>

definition encryptJSON ::
  "('v \<Rightarrow> error + jsstring) \<Rightarrow> (buffer \<Rightarrow> jsstring) \<Rightarrow> blockfn \<Rightarrow> buffer \<Rightarrow> 'v \<Rightarrow> topsecret
     \<Rightarrow> error + jsstring" where
  "encryptJSON stringify base64_encode E iv data s =
     (if ts_key s = None then Inl KeyNotSet
      else
        (case stringify data of
           Inl e \<Rightarrow> Inl e
         | Inr jsonString \<Rightarrow>
             (case encryptBuffer E iv (Buffer_from_utf8 jsonString) s of
                Inl e \<Rightarrow> Inl e
              | Inr encryptedBuffer \<Rightarrow> Inr (base64_encode encryptedBuffer))))"

definition decryptJSON ::
  "(jsstring \<Rightarrow> error + 'v) \<Rightarrow> (jsstring \<Rightarrow> buffer) \<Rightarrow> blockfn \<Rightarrow> jsstring \<Rightarrow> topsecret
     \<Rightarrow> error + 'v" where
  "decryptJSON parse base64_decode D encryptedData s =
     (if ts_key s = None then Inl KeyNotSet
      else
        (case decryptBuffer D (base64_decode encryptedData) s of
           Inl e \<Rightarrow> Inl e
         | Inr decryptedBuffer \<Rightarrow> parse decryptedBuffer))"

definition encryptJSONToFile ::
  "('v \<Rightarrow> error + jsstring) \<Rightarrow> blockfn \<Rightarrow> buffer \<Rightarrow> 'v \<Rightarrow> jsstring \<Rightarrow> topsecret \<Rightarrow> filesystem
     \<Rightarrow> error + filesystem" where
  "encryptJSONToFile stringify E iv data filename s fs =
     (if ts_key s = None then Inl KeyNotSet
      else
        (case stringify data of
           Inl e \<Rightarrow> Inl e
         | Inr jsonString \<Rightarrow>
             (case encryptBuffer E iv (Buffer_from_utf8 jsonString) s of
                Inl e \<Rightarrow> Inl e
              | Inr encryptedBuffer \<Rightarrow> writeFileSync fs filename encryptedBuffer)))"

text \<open>\<open>decryptJSONFromFile\<close> calls the method \<open>decryptBufferFromFile\<close>, outside any \<open>try\<close>.\<close>

definition decryptJSONFromFile ::
  "(jsstring \<Rightarrow> error + 'v) \<Rightarrow> blockfn \<Rightarrow> jsstring \<Rightarrow> topsecret \<Rightarrow> filesystem \<Rightarrow> error + 'v" where
  "decryptJSONFromFile parse D filename s fs =
     (case decryptBufferFromFile D filename s fs of
        Inl e \<Rightarrow> Inl e
      | Inr decryptedBuffer \<Rightarrow> parse decryptedBuffer)"

text \<open>\<open>loadJSONFromFile\<close> reads the file as UTF-8 text.\<close>

definition loadJSONFromFile ::
  "(jsstring \<Rightarrow> error + 'v) \<Rightarrow> (jsstring \<Rightarrow> buffer) \<Rightarrow> blockfn \<Rightarrow> jsstring \<Rightarrow> topsecret
     \<Rightarrow> filesystem \<Rightarrow> error + 'v" where
  "loadJSONFromFile parse base64_decode D filename s fs =
     (case readFileSync fs filename of
        Inl e \<Rightarrow> Inl FailedLoadJSON
      | Inr bytes \<Rightarrow>
          (case decryptJSON parse base64_decode D (toString_utf8 bytes) s of
             Inl e \<Rightarrow> Inl FailedLoadJSON
           | Inr v \<Rightarrow> Inr v))"

definition saveBufferToFile ::
  "blockfn \<Rightarrow> buffer \<Rightarrow> jsstring \<Rightarrow> buffer \<Rightarrow> topsecret \<Rightarrow> filesystem \<Rightarrow> error + filesystem" where
  "saveBufferToFile E iv filename buffer s fs =
     (case encryptBuffer E iv buffer s of
        Inl e \<Rightarrow> Inl FailedSaveBuffer
      | Inr encryptedBuffer \<Rightarrow>
          (case writeFileSync fs filename encryptedBuffer of
             Inl e \<Rightarrow> Inl FailedSaveBuffer
           | Inr fs' \<Rightarrow> Inr fs'))"

definition saveJSONToFile ::
  "('v \<Rightarrow> error + jsstring) \<Rightarrow> (buffer \<Rightarrow> jsstring) \<Rightarrow> blockfn \<Rightarrow> buffer \<Rightarrow> jsstring \<Rightarrow> 'v
     \<Rightarrow> topsecret \<Rightarrow> filesystem \<Rightarrow> error + filesystem" where
  "saveJSONToFile stringify base64_encode E iv filename data s fs =
     (case encryptJSON stringify base64_encode E iv data s of
        Inl e \<Rightarrow> Inl FailedSaveJSON
      | Inr encryptedData \<Rightarrow>
          (case writeFileSync fs filename (Buffer_from_utf8 encryptedData) of
             Inl e \<Rightarrow> Inl FailedSaveJSON
           | Inr fs' \<Rightarrow> Inr fs'))"

section \<open>Operations on an object without key material\<close>

text \<open>
  C5 (as amended).  On an object whose key is not set every operation fails.  The
  operations that test the key themselves, or are called outside a \<open>try\<close>, fail with
  "Key is not set.": \<open>encryptBuffer\<close>, \<open>decryptBuffer\<close>, \<open>decryptEnvFromFile\<close>,
  \<open>encryptJSON\<close>, \<open>decryptJSON\<close> and \<open>encryptJSONToFile\<close>.  The operations whose body is
  a \<open>try\<close> fail with their own message whatever went wrong inside, the missing key
  included: \<open>encryptFile\<close>, \<open>decryptFile\<close>, \<open>loadJSONFromFile\<close>, \<open>saveBufferToFile\<close> and
  \<open>saveJSONToFile\<close>.  The method \<open>decryptBufferFromFile\<close>, and \<open>decryptJSONFromFile\<close>
  which calls it, fail as well.
\<close>

theorem no_key_errors:
  "ts_key s = None \<Longrightarrow>
     encryptBuffer E iv b s = Inl KeyNotSet \<and>
     decryptBuffer D c s = Inl KeyNotSet \<and>
     decryptEnvFromFile D f s fs env = Inl KeyNotSet \<and>
     encryptJSON stringify base64_encode E iv v s = Inl KeyNotSet \<and>
     decryptJSON parse base64_decode D t s = Inl KeyNotSet \<and>
     encryptJSONToFile stringify E iv v f s fs = Inl KeyNotSet \<and>
     encryptFile E iv f g s fs = Inl FailedEncryptFile \<and>
     decryptFile D f g s fs = Inl FailedDecryptFile \<and>
     loadJSONFromFile parse base64_decode D f s fs = Inl FailedLoadJSON \<and>
     saveBufferToFile E iv f b s fs = Inl FailedSaveBuffer \<and>
     saveJSONToFile stringify base64_encode E iv f v s fs = Inl FailedSaveJSON \<and>
     (\<exists>e. decryptBufferFromFile D f s fs = Inl e) \<and>
     (\<exists>e. decryptJSONFromFile parse D f s fs = Inl e)"
  by (simp add: encryptBuffer_def decryptBuffer_def decryptEnvFromFile_def encryptJSON_def
        decryptJSON_def encryptJSONToFile_def encryptFile_def decryptFile_def
        loadJSONFromFile_def saveBufferToFile_def saveJSONToFile_def
        decryptBufferFromFile_def decryptJSONFromFile_def
        split: sum.splits)

theorem no_key_errors_witness:
  "ts_key constructor = None \<and>
   encryptBuffer (\<lambda>k x. x) (replicate 16 0) [1, 2, 3] constructor = Inl KeyNotSet \<and>
   decryptFile (\<lambda>k x. x) (js ''a.enc'') (js ''a.txt'') constructor
     \<lparr>files = [js ''a.enc'' \<mapsto> replicate 32 0], readonly = {}, unreadable = {}\<rparr> = Inl FailedDecryptFile"
proof -
  have k: "ts_key constructor = None" by (simp add: constructor_def)
  from no_key_errors [OF k, where E = "\<lambda>k x. x" and D = "\<lambda>k x. x" and iv = "replicate 16 0"
      and b = "[1, 2, 3]" and f = "js ''a.enc''" and g = "js ''a.txt''"
      and fs = "\<lparr>files = [js ''a.enc'' \<mapsto> replicate 32 0], readonly = {}, unreadable = {}\<rparr>"
      and c = "[]" and env = Map.empty and v = "()" and t = "[]"
      and stringify = "\<lambda>v. Inr []" and base64_encode = "\<lambda>b. []"
      and parse = "\<lambda>t. Inr ()" and base64_decode = "\<lambda>t. []"]
  show ?thesis using k by blast
qed

text \<open>
  C5 (as stated) fails: \<open>encryptFile\<close> on a new object, with a source file that exists,
  fails with "Failed to encrypt file.", and the method \<open>decryptBufferFromFile\<close> with
  "Failed to load buffer from file."; neither is the error of the missing key.
\<close>

theorem file_variants_hide_key_error_counterexample:
  "encryptFile (\<lambda>k x. x) (replicate 16 0) (js ''a.txt'') (js ''a.enc'') constructor
     \<lparr>files = [js ''a.txt'' \<mapsto> [104, 105]], readonly = {}, unreadable = {}\<rparr> = Inl FailedEncryptFile \<and>
   decryptBufferFromFile (\<lambda>k x. x) (js ''a.enc'') constructor
     \<lparr>files = [js ''a.enc'' \<mapsto> replicate 32 0], readonly = {}, unreadable = {}\<rparr> = Inl FailedLoadBuffer \<and>
   FailedEncryptFile \<noteq> KeyNotSet \<and> FailedLoadBuffer \<noteq> KeyNotSet"
  by (simp add: encryptFile_def decryptBufferFromFile_def readFileSync_def encryptBuffer_def
        decryptBuffer_def constructor_def)

section \<open>Environment lines\<close>

text \<open>
  C3.  The line \<open>A=b=c\<close> assigns \<open>b\<close> to \<open>A\<close>, not \<open>b=c\<close>: the line is split at every
  \<open>=\<close> and only the second piece is the value.  For the same reason \<open>KEY=abc==\<close>
  assigns \<open>abc\<close>, and \<open>A==b\<close>, whose second piece is empty, assigns nothing.
\<close>

theorem env_line_cuts_value_at_second_equals:
  "env_lines (js ''A=b=c'') Map.empty = [js ''A'' \<mapsto> js ''b''] \<and>
   env_lines (js ''KEY=abc=='') Map.empty = [js ''KEY'' \<mapsto> js ''abc''] \<and>
   env_lines (js ''A==b'') Map.empty = Map.empty"
  by (simp add: env_lines_def env_line_def js_def trim_def isWhiteSpace_def process_env_set_def
        env_text_def toString_utf8_def utf8_start_def utf8_init_def string_of_text_def
        utf16_units_def Buffer_from_utf8_def utf8_of_text_def utf8_bytes_def isHigh_def
        isLow_def)

section \<open>Configuration values\<close>

text \<open>
  A value of the configuration: a primitive, or an object given by its own properties in
  the order they were created, each with its attributes, and by whether properties can
  still be added to it.  An array is an object whose flag \<open>isArray\<close> is set and whose
  properties are named by its indices; its \<open>length\<close> is not a property of the list.
  A number is its mathematical value.
\<close>

record attrs =
  writable :: bool
  configurable :: bool
  enumerable :: bool

datatype jsvalue =
    JUndefined
  | JNull
  | JBool bool
  | JNum real
  | JStr jsstring
  | JObj (isArray: bool) (extensible: bool) (props: "(jsstring \<times> attrs \<times> jsvalue) list")

type_synonym properties = "(jsstring \<times> attrs \<times> jsvalue) list"

text \<open>The attributes of a property created by an assignment or by an object literal.\<close>

definition plain :: attrs where
  "plain = \<lparr>writable = True, configurable = True, enumerable = True\<rparr>"

text \<open>The attributes \<open>createReadOnlyObject\<close> gives to every property it defines.\<close>

definition readOnly :: attrs where
  "readOnly = \<lparr>writable = False, configurable = False, enumerable = True\<rparr>"

definition set_value :: "jsstring \<Rightarrow> jsvalue \<Rightarrow> properties \<Rightarrow> properties" where
  "set_value k v ps = map (\<lambda>(k', a, v'). if k' = k then (k', a, v) else (k', a, v')) ps"

text \<open>
  \<open>rawValues[key] = value\<close> on the object literal \<open>rawValues\<close>, whose properties are
  all writable: the last assignment to a name wins.  The name \<open>__proto__\<close> is the
  accessor of \<open>Object.prototype\<close> and creates no own property.  The list keeps the
  order of creation; that JavaScript enumerates names that are array indices before the
  others is not part of the model.
\<close>

definition assign :: "properties \<Rightarrow> jsstring \<Rightarrow> jsvalue \<Rightarrow> properties" where
  "assign ps k v =
     (if k = js ''__proto__'' then ps
      else if k \<in> fst ` set ps then set_value k v ps
      else ps @ [(k, plain, v)])"

section \<open>The line parser of loadEnvFile\<close>

text \<open>\<open>raw.split(/\r?\n/)\<close>.\<close>

fun split_lines :: "jsstring \<Rightarrow> jsstring list" where
  "split_lines [] = [[]]"
| "split_lines (c # cs) =
     (if c = 10 then [] # split_lines cs
      else if c = 13 \<and> cs \<noteq> [] \<and> hd cs = 10 then [] # split_lines (tl cs)
      else (case split_lines cs of
              [] \<Rightarrow> [[c]]
            | x # xs \<Rightarrow> (c # x) # xs))"

text \<open>
  \<open>value.replace(/\s+#.*$/, "")\<close>: the match starts at the first position from which
  there are one or more white space characters, then \<open>#\<close>, then no line terminator up to
  the end of the string, and it is removed.
\<close>

definition comment_here :: "jsstring \<Rightarrow> bool" where
  "comment_here s \<longleftrightarrow>
     s \<noteq> [] \<and> isWhiteSpace (hd s) \<and>
     (case dropWhile isWhiteSpace s of
        [] \<Rightarrow> False
      | c # cs \<Rightarrow> c = 35 \<and> \<not> list_ex isLineTerminator cs)"

fun strip_comment :: "jsstring \<Rightarrow> jsstring" where
  "strip_comment [] = []"
| "strip_comment (c # cs) = (if comment_here (c # cs) then [] else c # strip_comment cs)"

definition isJsonLike :: "jsstring \<Rightarrow> bool" where
  "isJsonLike v \<longleftrightarrow>
     (startsWith (trim v) (js ''['') \<and> endsWith (trim v) (js '']'')) \<or>
     (startsWith (trim v) (js ''{'') \<and> endsWith (trim v) (js ''}''))"

text \<open>
  The typed value of the text of a value.  \<open>coerce\<close> is \<open>coercePrimitive\<close> of the package
  \<open>zyx-system\<close> and \<open>parse\<close> is \<open>JSON.parse\<close>, whose exception is caught.
\<close>

definition classify ::
  "(jsstring \<Rightarrow> jsvalue) \<Rightarrow> (jsstring \<Rightarrow> error + jsvalue) \<Rightarrow> jsstring \<Rightarrow> jsvalue" where
  "classify coerce parse v =
     (if isJsonLike v then (case parse v of Inl e \<Rightarrow> JStr v | Inr j \<Rightarrow> j)
      else coerce v)"

text \<open>The body of the \<open>forEach\<close> over the lines.\<close>

definition parse_line ::
  "(jsstring \<Rightarrow> jsvalue) \<Rightarrow> (jsstring \<Rightarrow> error + jsvalue) \<Rightarrow> jsstring \<Rightarrow> properties
     \<Rightarrow> properties" where
  "parse_line coerce parse line rawValues =
     (let trimmed = trim line in
      if trimmed = [] \<or> startsWith trimmed (js ''#'') then rawValues
      else
        (case split_on 61 trimmed of
           [] \<Rightarrow> rawValues
         | name # rest \<Rightarrow>
             if name = [] then rawValues
             else assign rawValues (trim name)
                    (classify coerce parse (trim (strip_comment (join_with 61 rest))))))"

definition parse_lines ::
  "(jsstring \<Rightarrow> jsvalue) \<Rightarrow> (jsstring \<Rightarrow> error + jsvalue) \<Rightarrow> jsstring \<Rightarrow> properties" where
  "parse_lines coerce parse raw = fold (parse_line coerce parse) (split_lines raw) []"

section \<open>createReadOnlyObject\<close>

text \<open>
  A primitive is returned as it is.  For an object a new object or array is made, and for
  every enumerable own property of the argument a property of the same name is defined
  on it, with the read-only copy of the value.  The new object is never frozen, sealed
  or made non-extensible.
\<close>

fun createReadOnlyObject :: "jsvalue \<Rightarrow> jsvalue"
  and readOnlyProps :: "properties \<Rightarrow> properties" where
  "createReadOnlyObject (JObj arr ext ps) = JObj arr True (readOnlyProps ps)"
| "createReadOnlyObject JUndefined = JUndefined"
| "createReadOnlyObject JNull = JNull"
| "createReadOnlyObject (JBool b) = JBool b"
| "createReadOnlyObject (JNum n) = JNum n"
| "createReadOnlyObject (JStr t) = JStr t"
| "readOnlyProps [] = []"
| "readOnlyProps ((k, a, v) # ps) =
     (if enumerable a then (k, readOnly, createReadOnlyObject v) # readOnlyProps ps
      else readOnlyProps ps)"

section \<open>loadEnvFile and loadEnvFiles\<close>

text \<open>
  What the loaders take from outside: \<open>coercePrimitive\<close> and \<open>system.isProduction\<close> of
  the system package, \<open>JSON.parse\<close>, the block decryption of the cipher, the functions
  of \<open>path\<close> (\<open>path_resolve f\<close> is \<open>path.resolve(process.cwd(), f)\<close>), \<open>glob.sync\<close> and the
  file system.
\<close>

record collaborators =
  coercePrimitive :: "jsstring \<Rightarrow> jsvalue"
  JSON_parse :: "jsstring \<Rightarrow> error + jsvalue"
  aes_decrypt_block :: blockfn
  path_isAbsolute :: "jsstring \<Rightarrow> bool"
  path_resolve :: "jsstring \<Rightarrow> jsstring"
  glob_sync :: "jsstring \<Rightarrow> jsstring list"
  isProduction :: bool
  disk :: filesystem

record options =
  verbose :: bool
  suppressErrors :: bool

text \<open>
  A schema with a \<open>validate\<close> function: from the raw values to the validated value and
  the errors, each a field and a message.  \<open>None\<close> is a schema without one.
\<close>

type_synonym schema = "(properties \<Rightarrow> jsvalue \<times> (jsstring \<times> jsstring) list) option"

text \<open>The text of the file: read as UTF-8 when \<open>encryptKey\<close> is falsy, decrypted otherwise.\<close>

definition read_raw ::
  "collaborators \<Rightarrow> jsstring \<Rightarrow> jsstring \<Rightarrow> jsstring option \<Rightarrow> error + jsstring" where
  "read_raw w filename resolvedPath encryptKey =
     (case encryptKey of
        None \<Rightarrow> map_sum id toString_utf8 (readFileSync (disk w) resolvedPath)
      | Some key \<Rightarrow>
          if key = [] then map_sum id toString_utf8 (readFileSync (disk w) resolvedPath)
          else
            (case set_key key constructor of
               Inl e \<Rightarrow> Inl e
             | Inr ts \<Rightarrow>
                 (case decryptBufferFromFile (aes_decrypt_block w) resolvedPath ts (disk w) of
                    Inl e \<Rightarrow> Inl (DecryptionFailed filename)
                  | Inr raw \<Rightarrow> Inr raw)))"

definition validate :: "schema \<Rightarrow> jsstring \<Rightarrow> properties \<Rightarrow> error + jsvalue" where
  "validate schema filename rawValues =
     (case schema of
        None \<Rightarrow> Inr (JObj False True rawValues)
      | Some val \<Rightarrow>
          if snd (val rawValues) \<noteq> [] then Inl (ValidationFailed filename (snd (val rawValues)))
          else Inr (fst (val rawValues)))"

text \<open>
  \<open>loadEnvFile(filename, encryptKey, schema, options)\<close>.  The verbose listing writes to
  the console only, but \<open>Object.entries\<close> throws on \<open>null\<close> and \<open>undefined\<close>.
\<close>

definition loadEnvFile ::
  "collaborators \<Rightarrow> jsstring \<Rightarrow> jsstring option \<Rightarrow> schema \<Rightarrow> options \<Rightarrow> error + jsvalue" where
  "loadEnvFile w filename encryptKey schema opts =
     (let resolvedPath = path_resolve w filename in
      if \<not> existsSync (disk w) resolvedPath then Inl (FileNotFound resolvedPath)
      else
        (case read_raw w filename resolvedPath encryptKey of
           Inl e \<Rightarrow> Inl e
         | Inr raw \<Rightarrow>
             (case validate schema filename
                     (parse_lines (coercePrimitive w) (JSON_parse w) raw) of
                Inl e \<Rightarrow> Inl e
              | Inr validated \<Rightarrow>
                  if verbose opts \<and> (validated = JNull \<or> validated = JUndefined)
                  then Inl (TypeError ''Cannot convert undefined or null to object'')
                  else Inr (createReadOnlyObject validated))))"

text \<open>
  The loop of \<open>loadEnvFiles\<close> over the matched files.  Beside the configurations it
  carries the files \<open>loadEnvFile\<close> has been called on so far, in the order of the calls.
  An error of \<open>loadEnvFile\<close> is logged and thrown again as it is.
\<close>

fun load_loop ::
  "(jsstring \<Rightarrow> error + jsvalue) \<Rightarrow> jsstring list \<Rightarrow> jsstring list \<Rightarrow> jsvalue list
     \<Rightarrow> jsstring list \<times> (error + jsvalue list)" where
  "load_loop load [] called configs = (called, Inr configs)"
| "load_loop load (file # rest) called configs =
     (case load file of
        Inl err \<Rightarrow> (called @ [file], Inl err)
      | Inr config \<Rightarrow> load_loop load rest (called @ [file]) (configs @ [config]))"

text \<open>
  \<open>loadEnvFiles(filemask, encryptKey, schema, options)\<close>: the files \<open>loadEnvFile\<close> was
  called on, and the error thrown or the array returned.
\<close>

definition loadEnvFiles ::
  "collaborators \<Rightarrow> jsstring \<Rightarrow> jsstring option \<Rightarrow> schema \<Rightarrow> options
     \<Rightarrow> jsstring list \<times> (error + jsvalue list)" where
  "loadEnvFiles w filemask encryptKey schema opts =
     (if length (glob_sync w filemask) = 0 then ([], Inl (NoFilesMatched filemask))
      else load_loop (\<lambda>file. loadEnvFile w file encryptKey schema opts)
             (glob_sync w filemask) [] [])"

section \<open>loadEncryptKey\<close>

definition ENCRYPT_KEY :: jsstring where
  "ENCRYPT_KEY = js ''ENCRYPT_KEY''"

definition key_path :: "collaborators \<Rightarrow> jsstring \<Rightarrow> jsstring" where
  "key_path w filename = (if path_isAbsolute w filename then filename else path_resolve w filename)"

text \<open>
  The key file, when it exists, is read and its trimmed text assigned to
  \<open>process.env.ENCRYPT_KEY\<close>; an error of the read is thrown to the caller.
\<close>

definition key_from_file ::
  "collaborators \<Rightarrow> jsstring \<Rightarrow> environment \<Rightarrow> error + environment" where
  "key_from_file w filename env =
     (if existsSync (disk w) (key_path w filename) then
        (case readFileSync (disk w) (key_path w filename) of
           Inl e \<Rightarrow> Inl e
         | Inr b \<Rightarrow> Inr (process_env_set ENCRYPT_KEY (trim (toString_utf8 b)) env))
      else Inr env)"

text \<open>The check at the end of both versions, on \<open>process.env.ENCRYPT_KEY\<close>.\<close>

definition checked_key :: "environment \<Rightarrow> error + jsstring" where
  "checked_key env =
     (case env ENCRYPT_KEY of
        None \<Rightarrow> Inl KeyUnavailable
      | Some key \<Rightarrow> if key = [] \<or> length key \<noteq> 64 then Inl KeyUnavailable else Inr key)"

text \<open>
  \<open>loadEncryptKey\<close> of \<open>lib/loadEncryptKey.js\<close>: the file is read only when not in
  production.  The result is the key or the error, and the environment after the call.
\<close>

definition loadEncryptKey ::
  "collaborators \<Rightarrow> jsstring \<Rightarrow> environment \<Rightarrow> (error + jsstring) \<times> environment" where
  "loadEncryptKey w filename env =
     (case (if \<not> isProduction w then key_from_file w filename env else Inr env) of
        Inl e \<Rightarrow> (Inl e, env)
      | Inr env' \<Rightarrow> (checked_key env', env'))"

text \<open>
  \<open>loadEncryptKey\<close> of the other source file of that name: in production the variable
  of the environment is used when it is set and not empty, and the file otherwise.
\<close>

definition loadEncryptKey_fallback ::
  "collaborators \<Rightarrow> jsstring \<Rightarrow> environment \<Rightarrow> (error + jsstring) \<times> environment" where
  "loadEncryptKey_fallback w filename env =
     (case (if \<not> isProduction w then key_from_file w filename env
            else if env ENCRYPT_KEY \<noteq> None \<and> env ENCRYPT_KEY \<noteq> Some [] then Inr env
            else key_from_file w filename env) of
        Inl e \<Rightarrow> (Inl e, env)
      | Inr env' \<Rightarrow> (checked_key env', env'))"

section \<open>loadEnvFiles stops at the first failure\<close>

lemma load_loop_first_failure:
  "\<forall>g \<in> set pre. \<exists>c. load g = Inr c \<Longrightarrow> load f = Inl e \<Longrightarrow>
     load_loop load (pre @ f # post) called configs = (called @ pre @ [f], Inl e)"
  by (induction pre arbitrary: called configs) auto



lemma loadEnvFile_suppressErrors:
  "loadEnvFile w f k sch (opts\<lparr>suppressErrors := b\<rparr>) = loadEnvFile w f k sch opts"
  by (simp add: loadEnvFile_def Let_def split: sum.splits)

text \<open>A file system and collaborators to run the loaders on, and the facts that run them.\<close>

lemmas run_text =
  toString_utf8_def utf8_start_def utf8_init_def string_of_text_def utf16_units_def
  Buffer_from_utf8_def utf8_of_text_def utf8_bytes_def isHigh_def isLow_def js_def

lemmas run_parser =
  parse_lines_def parse_line_def trim_def isWhiteSpace_def isLineTerminator_def startsWith_def
  endsWith_def assign_def set_value_def classify_def isJsonLike_def comment_here_def

lemmas run_loadEnvFile =
  loadEnvFile_def read_raw_def existsSync_def readFileSync_def validate_def plain_def

abbreviation (input) example_disk :: filesystem where
  "example_disk \<equiv>
     \<lparr>files = [js ''a.env'' \<mapsto> Buffer_from_utf8 (js ''PORT=1''),
               js ''c.env'' \<mapsto> Buffer_from_utf8 (js ''PORT=2'')],
      readonly = {}, unreadable = {}\<rparr>"

abbreviation (input) example_world :: "jsstring list \<Rightarrow> collaborators" where
  "example_world matched \<equiv>
     \<lparr>coercePrimitive = JStr, JSON_parse = (\<lambda>t. Inl (JsonError ''SyntaxError'')),
      aes_decrypt_block = (\<lambda>k x. x), path_isAbsolute = (\<lambda>f. True), path_resolve = (\<lambda>f. f),
      glob_sync = (\<lambda>m. matched), isProduction = False, disk = example_disk\<rparr>"

text \<open>
  C10.  The field \<open>suppressErrors\<close> of the options is never read: the result is the same
  for both of its values, and with \<open>suppressErrors\<close> set the first file that fails still
  ends the call with its error, the files after it not being loaded.
\<close>

theorem suppressErrors_never_continues:
  "loadEnvFiles w filemask k sch (opts\<lparr>suppressErrors := b\<rparr>) = loadEnvFiles w filemask k sch opts \<and>
   (glob_sync w filemask = pre @ f # post \<and>
    (\<forall>g \<in> set pre. \<exists>c. loadEnvFile w g k sch (opts\<lparr>suppressErrors := True\<rparr>) = Inr c) \<and>
    loadEnvFile w f k sch (opts\<lparr>suppressErrors := True\<rparr>) = Inl e \<longrightarrow>
      loadEnvFiles w filemask k sch (opts\<lparr>suppressErrors := True\<rparr>) = (pre @ [f], Inl e))"
proof (intro conjI impI)
  show "loadEnvFiles w filemask k sch (opts\<lparr>suppressErrors := b\<rparr>) = loadEnvFiles w filemask k sch opts"
    by (simp add: loadEnvFiles_def loadEnvFile_suppressErrors)
next
  assume "glob_sync w filemask = pre @ f # post \<and>
    (\<forall>g \<in> set pre. \<exists>c. loadEnvFile w g k sch (opts\<lparr>suppressErrors := True\<rparr>) = Inr c) \<and>
    loadEnvFile w f k sch (opts\<lparr>suppressErrors := True\<rparr>) = Inl e"
  then show "loadEnvFiles w filemask k sch (opts\<lparr>suppressErrors := True\<rparr>) = (pre @ [f], Inl e)"
    using load_loop_first_failure
      [of pre "\<lambda>file. loadEnvFile w file k sch (opts\<lparr>suppressErrors := True\<rparr>)" f e post "[]" "[]"]
    by (simp add: loadEnvFiles_def)
qed

theorem suppressErrors_never_continues_witness:
  "loadEnvFiles (example_world [js ''a.env'', js ''b.env'', js ''c.env'']) (js ''*.env'') None None
       \<lparr>verbose = False, suppressErrors = True\<rparr>
     = ([js ''a.env'', js ''b.env''], Inl (FileNotFound (js ''b.env'')))"
proof -
  let ?o = "\<lparr>verbose = False, suppressErrors = True\<rparr>"
  have a: "loadEnvFile (example_world [js ''a.env'', js ''b.env'', js ''c.env'']) (js ''a.env'')
             None None ?o
             = Inr (JObj False True [(js ''PORT'', readOnly, JStr (js ''1''))])"
    by (simp add: run_loadEnvFile run_parser run_text)
  have b: "loadEnvFile (example_world [js ''a.env'', js ''b.env'', js ''c.env'']) (js ''b.env'')
             None None ?o
             = Inl (FileNotFound (js ''b.env''))"
    by (simp add: run_loadEnvFile run_parser run_text)
  from suppressErrors_never_continues
      [where w = "example_world [js ''a.env'', js ''b.env'', js ''c.env'']"
         and filemask = "js ''*.env''" and k = None and sch = None and opts = ?o and b = True
         and pre = "[js ''a.env'']" and f = "js ''b.env''" and post = "[js ''c.env'']"
         and e = "FileNotFound (js ''b.env'')"] a b
  show ?thesis by simp
qed

section \<open>Where loadEncryptKey takes the key from\<close>

lemma checked_key_length: "checked_key env = Inr k \<Longrightarrow> length k = 64 \<and> env ENCRYPT_KEY = Some k"
  by (auto simp: checked_key_def split: option.splits if_splits)

lemma readFileSync_exists: "readFileSync fs f = Inr b \<Longrightarrow> existsSync fs f"
  by (auto simp: readFileSync_def existsSync_def split: if_splits option.splits)

lemma env_text_ENCRYPT_KEY: "env_text ENCRYPT_KEY = ENCRYPT_KEY"
  by (simp add: env_text_def ENCRYPT_KEY_def run_text)

lemma set_ENCRYPT_KEY: "process_env_set ENCRYPT_KEY v env = env(ENCRYPT_KEY \<mapsto> env_text v)"
  by (simp add: process_env_set_def env_text_ENCRYPT_KEY) (simp add: ENCRYPT_KEY_def js_def)

lemma checked_key_set:
  "checked_key (env(ENCRYPT_KEY \<mapsto> v)) = (if length v = 64 then Inr v else Inl KeyUnavailable)"
  by (auto simp: checked_key_def)

lemma key_from_file_cases:
  "\<not> existsSync (disk w) (key_path w f) \<Longrightarrow> key_from_file w f env = Inr env"
  "existsSync (disk w) (key_path w f) \<Longrightarrow> readFileSync (disk w) (key_path w f) = Inl e \<Longrightarrow>
     key_from_file w f env = Inl e"
  "readFileSync (disk w) (key_path w f) = Inr b \<Longrightarrow>
     key_from_file w f env = Inr (env(ENCRYPT_KEY \<mapsto> env_text (trim (toString_utf8 b))))"
  by (simp_all add: key_from_file_def set_ENCRYPT_KEY readFileSync_exists)

lemma key_from_file_key:
  "key_from_file w f env = Inr env' \<Longrightarrow> checked_key env' = Inr k \<Longrightarrow>
     length k = 64 \<and> env' ENCRYPT_KEY = Some k"
  by (rule checked_key_length)

text \<open>
  A production and a development setting with a key file of 64 characters and a newline,
  and one whose key file has a NUL and more text after the 64 characters.
\<close>

abbreviation (input) key_text :: string where
  "key_text \<equiv> ''0123456789abcdef0123456789abcdef0123456789abcdef0123456789abcdef''"

abbreviation (input) key_disk :: "buffer \<Rightarrow> filesystem" where
  "key_disk content \<equiv>
     \<lparr>files = [js ''/app/_secret.key'' \<mapsto> content], readonly = {}, unreadable = {}\<rparr>"

abbreviation (input) key_world_with :: "filesystem \<Rightarrow> bool \<Rightarrow> collaborators" where
  "key_world_with d production \<equiv>
     \<lparr>coercePrimitive = JStr, JSON_parse = (\<lambda>t. Inl (JsonError ''SyntaxError'')),
      aes_decrypt_block = (\<lambda>k x. x), path_isAbsolute = (\<lambda>f. True), path_resolve = (\<lambda>f. f),
      glob_sync = (\<lambda>m. []), isProduction = production, disk = d\<rparr>"

abbreviation (input) key_world :: "bool \<Rightarrow> collaborators" where
  "key_world production \<equiv>
     key_world_with (key_disk (Buffer_from_utf8 (js key_text @ [10]))) production"

lemma key_file_text:
  "env_text (trim (toString_utf8 (Buffer_from_utf8 (js key_text @ [10])))) = js key_text"
  by (simp add: env_text_def run_text trim_def isWhiteSpace_def)

lemma key_file_text_NUL:
  "env_text (trim (toString_utf8 (Buffer_from_utf8 (js key_text @ 0 # js ''more'')))) = js key_text"
  by (simp add: env_text_def run_text trim_def isWhiteSpace_def)

text \<open>
  C8 (as amended).  Both versions return only a key of 64 characters, which is then the
  value of \<open>ENCRYPT_KEY\<close> in the environment, and fail with the error of the invalid key
  when that value is unset, empty or of another length.  Outside production both read
  the key file when it exists, and the trimmed text, as the environment keeps it (up to
  its first NUL), replaces the variable; an error of the read is thrown; the variable is
  used when there is no file.  In production the version of \<open>lib/loadEncryptKey.js\<close>
  uses the variable only and never reads the file; the other version uses the variable
  when it is set and not empty, and otherwise does with the file what both do outside
  production.
\<close>

theorem loadEncryptKey_sources:
  "(fst (loadEncryptKey w f env) = Inr k \<longrightarrow>
      length k = 64 \<and> snd (loadEncryptKey w f env) ENCRYPT_KEY = Some k) \<and>
   (fst (loadEncryptKey_fallback w f env) = Inr k \<longrightarrow>
      length k = 64 \<and> snd (loadEncryptKey_fallback w f env) ENCRYPT_KEY = Some k) \<and>
   (\<not> isProduction w \<longrightarrow> loadEncryptKey w f env = loadEncryptKey_fallback w f env) \<and>
   (\<not> isProduction w \<and> \<not> existsSync (disk w) (key_path w f) \<longrightarrow>
      loadEncryptKey w f env = (checked_key env, env)) \<and>
   (\<not> isProduction w \<and> existsSync (disk w) (key_path w f) \<and>
    readFileSync (disk w) (key_path w f) = Inl e \<longrightarrow>
      loadEncryptKey w f env = (Inl e, env)) \<and>
   (\<not> isProduction w \<and> readFileSync (disk w) (key_path w f) = Inr b \<longrightarrow>
      loadEncryptKey w f env =
        (if length (env_text (trim (toString_utf8 b))) = 64
         then Inr (env_text (trim (toString_utf8 b))) else Inl KeyUnavailable,
         env(ENCRYPT_KEY \<mapsto> env_text (trim (toString_utf8 b))))) \<and>
   (isProduction w \<longrightarrow> loadEncryptKey w f env = (checked_key env, env)) \<and>
   (isProduction w \<and> env ENCRYPT_KEY = Some v \<and> v \<noteq> [] \<longrightarrow>
      loadEncryptKey_fallback w f env =
        (if length v = 64 then Inr v else Inl KeyUnavailable, env)) \<and>
   (isProduction w \<and> (env ENCRYPT_KEY = None \<or> env ENCRYPT_KEY = Some []) \<and>
    \<not> existsSync (disk w) (key_path w f) \<longrightarrow>
      loadEncryptKey_fallback w f env = (Inl KeyUnavailable, env)) \<and>
   (isProduction w \<and> (env ENCRYPT_KEY = None \<or> env ENCRYPT_KEY = Some []) \<and>
    existsSync (disk w) (key_path w f) \<and> readFileSync (disk w) (key_path w f) = Inl e \<longrightarrow>
      loadEncryptKey_fallback w f env = (Inl e, env)) \<and>
   (isProduction w \<and> (env ENCRYPT_KEY = None \<or> env ENCRYPT_KEY = Some []) \<and>
    readFileSync (disk w) (key_path w f) = Inr b \<longrightarrow>
      loadEncryptKey_fallback w f env =
        (if length (env_text (trim (toString_utf8 b))) = 64
         then Inr (env_text (trim (toString_utf8 b))) else Inl KeyUnavailable,
         env(ENCRYPT_KEY \<mapsto> env_text (trim (toString_utf8 b)))))"
proof (intro conjI impI)
  show "length k = 64" if "fst (loadEncryptKey w f env) = Inr k"
    using that checked_key_length
    by (fastforce simp: loadEncryptKey_def split: sum.splits if_splits)
  show "snd (loadEncryptKey w f env) ENCRYPT_KEY = Some k" if "fst (loadEncryptKey w f env) = Inr k"
    using that checked_key_length
    by (fastforce simp: loadEncryptKey_def split: sum.splits if_splits)
  show "length k = 64" if "fst (loadEncryptKey_fallback w f env) = Inr k"
    using that checked_key_length
    by (fastforce simp: loadEncryptKey_fallback_def split: sum.splits if_splits)
  show "snd (loadEncryptKey_fallback w f env) ENCRYPT_KEY = Some k"
    if "fst (loadEncryptKey_fallback w f env) = Inr k"
    using that checked_key_length
    by (fastforce simp: loadEncryptKey_fallback_def split: sum.splits if_splits)
  show "loadEncryptKey w f env = loadEncryptKey_fallback w f env" if "\<not> isProduction w"
    using that by (simp add: loadEncryptKey_def loadEncryptKey_fallback_def)
  show "loadEncryptKey w f env = (checked_key env, env)"
    if "\<not> isProduction w \<and> \<not> existsSync (disk w) (key_path w f)"
    using that by (simp add: loadEncryptKey_def key_from_file_cases(1))
  show "loadEncryptKey w f env = (Inl e, env)"
    if "\<not> isProduction w \<and> existsSync (disk w) (key_path w f) \<and>
        readFileSync (disk w) (key_path w f) = Inl e"
    using that by (simp add: loadEncryptKey_def key_from_file_cases(2))
  show "loadEncryptKey w f env =
        (if length (env_text (trim (toString_utf8 b))) = 64
         then Inr (env_text (trim (toString_utf8 b))) else Inl KeyUnavailable,
         env(ENCRYPT_KEY \<mapsto> env_text (trim (toString_utf8 b))))"
    if "\<not> isProduction w \<and> readFileSync (disk w) (key_path w f) = Inr b"
    using that by (simp add: loadEncryptKey_def key_from_file_cases(3) checked_key_set)
  show "loadEncryptKey w f env = (checked_key env, env)" if "isProduction w"
    using that by (simp add: loadEncryptKey_def)
  show "loadEncryptKey_fallback w f env =
        (if length v = 64 then Inr v else Inl KeyUnavailable, env)"
    if "isProduction w \<and> env ENCRYPT_KEY = Some v \<and> v \<noteq> []"
    using that by (simp add: loadEncryptKey_fallback_def checked_key_def)
  show "loadEncryptKey_fallback w f env = (Inl KeyUnavailable, env)"
    if "isProduction w \<and> (env ENCRYPT_KEY = None \<or> env ENCRYPT_KEY = Some []) \<and>
        \<not> existsSync (disk w) (key_path w f)"
    using that
    by (auto simp: loadEncryptKey_fallback_def key_from_file_cases(1) checked_key_def)
  show "loadEncryptKey_fallback w f env = (Inl e, env)"
    if "isProduction w \<and> (env ENCRYPT_KEY = None \<or> env ENCRYPT_KEY = Some []) \<and>
        existsSync (disk w) (key_path w f) \<and> readFileSync (disk w) (key_path w f) = Inl e"
    using that by (auto simp: loadEncryptKey_fallback_def key_from_file_cases(2))
  show "loadEncryptKey_fallback w f env =
        (if length (env_text (trim (toString_utf8 b))) = 64
         then Inr (env_text (trim (toString_utf8 b))) else Inl KeyUnavailable,
         env(ENCRYPT_KEY \<mapsto> env_text (trim (toString_utf8 b))))"
    if "isProduction w \<and> (env ENCRYPT_KEY = None \<or> env ENCRYPT_KEY = Some []) \<and>
        readFileSync (disk w) (key_path w f) = Inr b"
    using that
    by (auto simp: loadEncryptKey_fallback_def key_from_file_cases(3) checked_key_set)
qed

theorem loadEncryptKey_sources_witness:
  "loadEncryptKey_fallback (key_world True) (js ''/app/_secret.key'') Map.empty
     = (Inr (js key_text), [ENCRYPT_KEY \<mapsto> js key_text]) \<and>
   loadEncryptKey_fallback (key_world True) (js ''/app/_secret.key'') [ENCRYPT_KEY \<mapsto> js ''short'']
     = (Inl KeyUnavailable, [ENCRYPT_KEY \<mapsto> js ''short'']) \<and>
   loadEncryptKey (key_world False) (js ''/app/_secret.key'') [ENCRYPT_KEY \<mapsto> js ''short'']
     = (Inr (js key_text), [ENCRYPT_KEY \<mapsto> js key_text]) \<and>
   loadEncryptKey (key_world True) (js ''/app/_secret.key'') [ENCRYPT_KEY \<mapsto> js ''short'']
     = (Inl KeyUnavailable, [ENCRYPT_KEY \<mapsto> js ''short'']) \<and>
   loadEncryptKey
       (key_world_with (key_disk (Buffer_from_utf8 (js key_text @ 0 # js ''more''))) False)
       (js ''/app/_secret.key'') Map.empty
     = (Inr (js key_text), [ENCRYPT_KEY \<mapsto> js key_text]) \<and>
   loadEncryptKey
       (key_world_with
          \<lparr>files = Map.empty, readonly = {}, unreadable = {js ''/app/_secret.key''}\<rparr> False)
       (js ''/app/_secret.key'') Map.empty
     = (Inl (FsError (js ''/app/_secret.key'')), Map.empty)"
proof -
  have len: "length (js key_text) = 64" by (simp add: js_def)
  have short: "js ''short'' \<noteq> []" "length (js ''short'') \<noteq> 64" by (simp_all add: js_def)
  let ?b = "Buffer_from_utf8 (js key_text @ [10])"
  let ?c = "Buffer_from_utf8 (js key_text @ 0 # js ''more'')"
  let ?p = "js ''/app/_secret.key''"
  let ?P = "key_world True"
  let ?N = "key_world False"
  let ?C = "key_world_with (key_disk ?c) False"
  let ?U = "key_world_with \<lparr>files = Map.empty, readonly = {}, unreadable = {?p}\<rparr> False"
  let ?s = "[ENCRYPT_KEY \<mapsto> js ''short'']"
  have prod: "isProduction ?P" "\<not> isProduction ?N" "\<not> isProduction ?C" "\<not> isProduction ?U"
    by simp_all
  have rP: "readFileSync (disk ?P) (key_path ?P ?p) = Inr ?b"
    and rN: "readFileSync (disk ?N) (key_path ?N ?p) = Inr ?b"
    and rC: "readFileSync (disk ?C) (key_path ?C ?p) = Inr ?c"
    and rU: "readFileSync (disk ?U) (key_path ?U ?p) = Inl (FsError ?p)"
    and eU: "existsSync (disk ?U) (key_path ?U ?p)"
    by (simp_all add: readFileSync_def existsSync_def key_path_def)
  have unset: "(Map.empty :: environment) ENCRYPT_KEY = None \<or> (Map.empty :: environment) ENCRYPT_KEY = Some []"
    by simp
  have set: "?s ENCRYPT_KEY = Some (js ''short'') \<and> js ''short'' \<noteq> []"
    using short by simp
  from loadEncryptKey_sources [where w = ?P and f = ?p and env = Map.empty and b = ?b and k = "[]" and v = "[]" and e = KeyUnavailable, THEN conjunct2, THEN conjunct2, THEN conjunct2, THEN conjunct2, THEN conjunct2, THEN conjunct2, THEN conjunct2, THEN conjunct2, THEN conjunct2, THEN conjunct2, rule_format] prod(1) unset rP
  have "loadEncryptKey_fallback ?P ?p Map.empty =
        (if length (env_text (trim (toString_utf8 ?b))) = 64
         then Inr (env_text (trim (toString_utf8 ?b))) else Inl KeyUnavailable,
         [ENCRYPT_KEY \<mapsto> env_text (trim (toString_utf8 ?b))])"
    by blast
  then have 1: "loadEncryptKey_fallback ?P ?p Map.empty = (Inr (js key_text), [ENCRYPT_KEY \<mapsto> js key_text])"
    by (simp add: key_file_text len)
  from loadEncryptKey_sources [where w = ?P and f = ?p and env = ?s and v = "js ''short''" and b = "[]" and k = "[]" and e = KeyUnavailable, THEN conjunct2, THEN conjunct2, THEN conjunct2, THEN conjunct2, THEN conjunct2, THEN conjunct2, THEN conjunct2, THEN conjunct1, rule_format] prod(1) set
  have "loadEncryptKey_fallback ?P ?p ?s =
        (if length (js ''short'') = 64 then Inr (js ''short'') else Inl KeyUnavailable, ?s)"
    by blast
  then have 2: "loadEncryptKey_fallback ?P ?p ?s = (Inl KeyUnavailable, ?s)"
    using short by simp
  from loadEncryptKey_sources [where w = ?N and f = ?p and env = ?s and b = ?b and k = "[]" and v = "[]" and e = KeyUnavailable, THEN conjunct2, THEN conjunct2, THEN conjunct2, THEN conjunct2, THEN conjunct2, THEN conjunct1, rule_format] prod(2) rN
  have "loadEncryptKey ?N ?p ?s =
        (if length (env_text (trim (toString_utf8 ?b))) = 64
         then Inr (env_text (trim (toString_utf8 ?b))) else Inl KeyUnavailable,
         ?s(ENCRYPT_KEY \<mapsto> env_text (trim (toString_utf8 ?b))))"
    by blast
  then have 3: "loadEncryptKey ?N ?p ?s = (Inr (js key_text), [ENCRYPT_KEY \<mapsto> js key_text])"
    by (simp add: key_file_text len)
  from loadEncryptKey_sources [where w = ?P and f = ?p and env = ?s and b = "[]" and k = "[]" and v = "[]" and e = KeyUnavailable, THEN conjunct2, THEN conjunct2, THEN conjunct2, THEN conjunct2, THEN conjunct2, THEN conjunct2, THEN conjunct1, rule_format] prod(1)
  have "loadEncryptKey ?P ?p ?s = (checked_key ?s, ?s)"
    by blast
  then have 4: "loadEncryptKey ?P ?p ?s = (Inl KeyUnavailable, ?s)"
    using short by (simp add: checked_key_def)
  from loadEncryptKey_sources [where w = ?C and f = ?p and env = Map.empty and b = ?c and k = "[]" and v = "[]" and e = KeyUnavailable, THEN conjunct2, THEN conjunct2, THEN conjunct2, THEN conjunct2, THEN conjunct2, THEN conjunct1, rule_format] prod(3) rC
  have "loadEncryptKey ?C ?p Map.empty =
        (if length (env_text (trim (toString_utf8 ?c))) = 64
         then Inr (env_text (trim (toString_utf8 ?c))) else Inl KeyUnavailable,
         [ENCRYPT_KEY \<mapsto> env_text (trim (toString_utf8 ?c))])"
    by blast
  then have 5: "loadEncryptKey ?C ?p Map.empty = (Inr (js key_text), [ENCRYPT_KEY \<mapsto> js key_text])"
    by (simp add: key_file_text_NUL len)
  from loadEncryptKey_sources [where w = ?U and f = ?p and env = Map.empty and e = "FsError ?p" and b = "[]" and k = "[]" and v = "[]", THEN conjunct2, THEN conjunct2, THEN conjunct2, THEN conjunct2, THEN conjunct1, rule_format]
    prod(4) rU eU
  have 6: "loadEncryptKey ?U ?p Map.empty = (Inl (FsError ?p), Map.empty)"
    by blast
  from 1 2 3 4 5 6 show ?thesis by blast
qed

text \<open>
  C8 (as stated) fails for \<open>lib/loadEncryptKey.js\<close>: in production, with the variable
  unset and a key file holding 64 characters, it fails instead of reading the file.
\<close>

theorem loadEncryptKey_production_counterexample:
  "loadEncryptKey (key_world True) (js ''/app/_secret.key'') Map.empty
     = (Inl KeyUnavailable, Map.empty) \<and>
   files (disk (key_world True)) (js ''/app/_secret.key'')
     = Some (Buffer_from_utf8 (js key_text @ [10])) \<and>
   env_text (trim (toString_utf8 (Buffer_from_utf8 (js key_text @ [10])))) = js key_text \<and>
   length (js key_text) = 64"
  using key_file_text
  by (simp add: loadEncryptKey_def checked_key_def) (simp add: js_def)

section \<open>The lines of a configuration file\<close>

lemma parse_line_skips:
  "trim line = [] \<or> startsWith (trim line) (js ''#'') \<Longrightarrow> parse_line coerce parse line raw = raw"
  by (auto simp: parse_line_def)

lemma classify_fallback:
  "isJsonLike v \<Longrightarrow> parse v = Inl e \<Longrightarrow> classify coerce parse v = JStr v"
  by (simp add: classify_def)

text \<open>A coercion and a JSON parser that know the values of the examples.\<close>

abbreviation (input) example_coerce :: "jsstring \<Rightarrow> jsvalue" where
  "example_coerce \<equiv>
     (\<lambda>t. if t = js ''8080'' then JNum 8080 else if t = js ''true'' then JBool True else JStr t)"

abbreviation (input) example_parse :: "jsstring \<Rightarrow> error + jsvalue" where
  \<open>example_parse \<equiv>
     (\<lambda>t. if t = js ''{"a":1}'' then Inr (JObj False True [(js ''a'', plain, JNum 1)])
          else Inl (JsonError ''SyntaxError''))\<close>

text \<open>
  C4.  With a coercion that reads \<open>8080\<close> as the number and \<open>true\<close> as the boolean and
  leaves \<open>hello=world\<close> a string, and a JSON parser that reads \<open>{"a":1}\<close> and rejects
  \<open>{a:1}\<close>: the line \<open>PORT=8080 # comment\<close> gives PORT the number 8080, \<open>FLAG=true\<close> gives
  FLAG the boolean, \<open>DATA={"a":1}\<close> gives DATA the parsed object, \<open>NAME=hello=world\<close>
  gives NAME the string \<open>hello=world\<close>; a line that starts with \<open>#\<close> and a blank line
  leave the values as they are; and a value that looks like JSON and does not parse is
  stored as the trimmed string.
\<close>

theorem parse_line_examples:
  \<open>coerce (js ''8080'') = JNum 8080 \<Longrightarrow>
   coerce (js ''true'') = JBool True \<Longrightarrow>
   coerce (js ''hello=world'') = JStr (js ''hello=world'') \<Longrightarrow>
   parse (js ''{"a":1}'') = Inr (JObj False True [(js ''a'', plain, JNum 1)]) \<Longrightarrow>
   parse (js ''{a:1}'') = Inl e \<Longrightarrow>
     parse_lines coerce parse (js ''PORT=8080 # comment'') = [(js ''PORT'', plain, JNum 8080)] \<and>
     parse_lines coerce parse (js ''FLAG=true'') = [(js ''FLAG'', plain, JBool True)] \<and>
     parse_lines coerce parse (js ''DATA={"a":1}'')
       = [(js ''DATA'', plain, JObj False True [(js ''a'', plain, JNum 1)])] \<and>
     parse_lines coerce parse (js ''NAME=hello=world'')
       = [(js ''NAME'', plain, JStr (js ''hello=world''))] \<and>
     parse_lines coerce parse (js ''# PORT=8080'') = [] \<and>
     parse_lines coerce parse (js '''') = [] \<and>
     parse_lines coerce parse (js ''DATA= {a:1}  # not JSON'')
       = [(js ''DATA'', plain, JStr (js ''{a:1}''))] \<and>
     (\<forall>line raw. trim line = [] \<or> startsWith (trim line) (js ''#'') \<longrightarrow>
        parse_line coerce parse line raw = raw) \<and>
     (\<forall>v err. isJsonLike v \<and> parse v = Inl err \<longrightarrow> classify coerce parse v = JStr v)\<close>
proof -
  assume c1: "coerce (js ''8080'') = JNum 8080"
    and c2: "coerce (js ''true'') = JBool True"
    and c3: "coerce (js ''hello=world'') = JStr (js ''hello=world'')"
    and p1: \<open>parse (js ''{"a":1}'') = Inr (JObj False True [(js ''a'', plain, JNum 1)])\<close>
    and p2: "parse (js ''{a:1}'') = Inl e"
  have 1: "parse_lines coerce parse (js ''PORT=8080 # comment'') = [(js ''PORT'', plain, JNum 8080)]"
    using c1 by (simp add: run_parser js_def)
  have 2: "parse_lines coerce parse (js ''FLAG=true'') = [(js ''FLAG'', plain, JBool True)]"
    using c2 by (simp add: run_parser js_def)
  have 3: \<open>parse_lines coerce parse (js ''DATA={"a":1}'')
       = [(js ''DATA'', plain, JObj False True [(js ''a'', plain, JNum 1)])]\<close>
    using p1 by (simp add: run_parser js_def)
  have 4: "parse_lines coerce parse (js ''NAME=hello=world'')
       = [(js ''NAME'', plain, JStr (js ''hello=world''))]"
    using c3 by (simp add: run_parser js_def)
  have 5: "parse_lines coerce parse (js ''# PORT=8080'') = []"
    by (simp add: run_parser js_def)
  have 6: "parse_lines coerce parse (js '''') = []"
    by (simp add: run_parser js_def)
  have 7: "parse_lines coerce parse (js ''DATA= {a:1}  # not JSON'')
       = [(js ''DATA'', plain, JStr (js ''{a:1}''))]"
    using p2 by (simp add: run_parser js_def)
  from 1 2 3 4 5 6 7 show ?thesis
    using parse_line_skips classify_fallback by blast
qed


theorem parse_line_examples_witness:
  \<open>parse_lines example_coerce example_parse (js ''PORT=8080 # comment'')
     = [(js ''PORT'', plain, JNum 8080)] \<and>
   parse_lines example_coerce example_parse (js ''FLAG=true'') = [(js ''FLAG'', plain, JBool True)] \<and>
   parse_lines example_coerce example_parse (js ''DATA={"a":1}'')
     = [(js ''DATA'', plain, JObj False True [(js ''a'', plain, JNum 1)])] \<and>
   parse_lines example_coerce example_parse (js ''NAME=hello=world'')
     = [(js ''NAME'', plain, JStr (js ''hello=world''))] \<and>
   parse_lines example_coerce example_parse (js ''DATA= {a:1}  # not JSON'')
     = [(js ''DATA'', plain, JStr (js ''{a:1}''))]\<close>
proof -
  have c1: "example_coerce (js ''8080'') = JNum 8080"
    and c2: "example_coerce (js ''true'') = JBool True"
    and c3: "example_coerce (js ''hello=world'') = JStr (js ''hello=world'')"
    and p1: \<open>example_parse (js ''{"a":1}'') = Inr (JObj False True [(js ''a'', plain, JNum 1)])\<close>
    and p2: "example_parse (js ''{a:1}'') = Inl (JsonError ''SyntaxError'')"
    by (simp_all add: js_def)
  from parse_line_examples [OF c1 c2 c3 p1 p2] show ?thesis by blast
qed

section \<open>Attempts to change a snapshot\<close>



























section \<open>What loadEnvFiles returns\<close>






end
